theory Spec2Isabelle
  imports Main
begin

section \<open>The web dashboard and proxy of \<open>client/web/web.go\<close>\<close>

subsection \<open>Requests, endpoints and the request context\<close>

text \<open>
  \<open>res.Endpoint\<close> of the resolver package; the file reads its fields \<open>Name\<close>,
  \<open>Host\<close> and \<open>Path\<close>.
\<close>

record Endpoint =
  ep_Name :: string
  ep_Host :: string
  ep_Path :: string

text \<open>
  A Go pointer \<open>*T\<close> is either \<open>nil\<close> (\<open>None\<close>) or points to a value (\<open>Some v\<close>).
\<close>

type_synonym 'a ptr = "'a option"

text \<open>\<open>url.URL\<close> with the fields of the standard library.\<close>

record URL =
  url_Scheme :: string
  url_Opaque :: string
  url_User :: "string option"
  url_Host :: string
  url_Path :: string
  url_RawPath :: string
  url_ForceQuery :: bool
  url_RawQuery :: string
  url_Fragment :: string

text \<open>
  A \<open>context.Context\<close> is a chain of key/value pairs: \<open>context.WithValue\<close> puts a
  pair in front, \<open>Value\<close> returns the value of the innermost pair with the key. The
  key this file uses is the zero struct \<open>res.Endpoint{}\<close>; a value stored under a key is
  a \<open>*res.Endpoint\<close> (possibly \<open>nil\<close>) or a value of some other dynamic type.
\<close>

datatype ctx_key = EndpointKey | OtherKey string

datatype ctx_value = EndpointPtr "Endpoint ptr" | OtherValue string

type_synonym Context = "(ctx_key \<times> ctx_value) list"

definition WithValue :: "Context \<Rightarrow> ctx_key \<Rightarrow> ctx_value \<Rightarrow> Context" where
  "WithValue c k v = (k, v) # c"

definition Value :: "Context \<Rightarrow> ctx_key \<Rightarrow> ctx_value option" where
  "Value c k = map_of c k"

text \<open>
  The type assertion \<open>(r.Context().Value(res.Endpoint{})).(*res.Endpoint)\<close>: \<open>None\<close> is
  \<open>ok = false\<close> (no value under the key, or a value of another type), \<open>Some p\<close> is
  \<open>ok = true\<close> with the pointer \<open>p\<close>.
\<close>

definition ctx_Endpoint :: "Context \<Rightarrow> Endpoint ptr option" where
  "ctx_Endpoint c =
     (case Value c EndpointKey of
        Some (EndpointPtr p) \<Rightarrow> Some p
      | Some (OtherValue _) \<Rightarrow> None
      | None \<Rightarrow> None)"

text \<open>
  \<open>http.Header\<close> is a map from canonical header names to value lists. \<open>Header.Set\<close>
  replaces the values of the key by the single given value. The only key this file sets is
  \<open>BasePathHeader\<close>, which is already in canonical MIME form, so that the
  canonicalisation of \<open>Set\<close> leaves it as it is.
\<close>

type_synonym Header = "string \<rightharpoonup> string list"

definition Header_Set :: "Header \<Rightarrow> string \<Rightarrow> string \<Rightarrow> Header" where
  "Header_Set h k v = h(k \<mapsto> [v])"

text \<open>
  \<open>Header.Get\<close> returns the first value of the key, or the empty string. The key that
  this file reads, \<open>Content-Type\<close>, is in canonical form as well.
\<close>

definition Header_Get :: "Header \<Rightarrow> string \<Rightarrow> string" where
  "Header_Get h k = (case h k of None \<Rightarrow> [] | Some [] \<Rightarrow> [] | Some (v # _) \<Rightarrow> v)"

definition BasePathHeader :: string where
  "BasePathHeader = ''X-Micro-Web-Base-Path''"

text \<open>
  An \<open>http.Request\<close>: the fields that the handlers of this file read or write, the
  protocol and the body, which they leave alone, and the context of the request.
\<close>

record Request =
  req_Method :: string
  req_URL :: URL
  req_Proto :: string
  req_Header :: Header
  req_Body :: string
  req_Host :: string
  req_ctx :: Context

text \<open>
  \<open>r.Clone(ctx)\<close> is a deep copy of the request with the context replaced; the
  assignment \<open>*r = *r.Clone(ctx)\<close> overwrites the request with it.
\<close>

definition Clone :: "Request \<Rightarrow> Context \<Rightarrow> Request" where
  "Clone r c = r\<lparr>req_ctx := c\<rparr>"

subsection \<open>\<open>srv.ServeHTTP\<close>\<close>

text \<open>
  An error value of Go is its message. \<open>resolver.Resolve\<close> returns a pointer and an
  error: \<open>Inl err\<close> is \<open>err != nil\<close>, \<open>Inr p\<close> is the pointer returned with a
  \<open>nil\<close> error. The resolver only reads the request.
\<close>

type_synonym error = string

type_synonym Resolver = "Request \<Rightarrow> error + Endpoint ptr"

text \<open>
  \<open>ServeHTTP\<close> calls the resolver, the proxy (\<open>s.prx.ServeHTTP\<close>) and the mux router
  (\<open>s.Router.ServeHTTP\<close>). Each call is recorded with the request as it is at the
  moment of the call, in the order of the calls.
\<close>

datatype call =
    Resolve_call Request
  | prx_ServeHTTP Request
  | Router_ServeHTTP Request

definition ServeHTTP :: "Resolver \<Rightarrow> Request \<Rightarrow> call list" where
  "ServeHTTP resolver r =
     (let r = (if length (url_Host (req_URL r)) = 0
               then r\<lparr>req_URL := (req_URL r)\<lparr>url_Host := req_Host r\<rparr>\<rparr> else r);
          r = (if length (url_Scheme (req_URL r)) = 0
               then r\<lparr>req_URL := (req_URL r)\<lparr>url_Scheme := ''http''\<rparr>\<rparr> else r)
      in case ctx_Endpoint (req_ctx r) of
           Some _ \<Rightarrow> [prx_ServeHTTP r]
         | None \<Rightarrow>
             (case resolver r of
                Inl err \<Rightarrow> [Resolve_call r, Router_ServeHTTP r]
              | Inr endpoint \<Rightarrow>
                  (let r' = Clone r (WithValue (req_ctx r) EndpointKey (EndpointPtr endpoint))
                   in [Resolve_call r, prx_ServeHTTP r'])))"

fun is_Resolve_call :: "call \<Rightarrow> bool" where
  "is_Resolve_call (Resolve_call _) = True"
| "is_Resolve_call _ = False"

fun call_Request :: "call \<Rightarrow> Request" where
  "call_Request (Resolve_call r) = r"
| "call_Request (prx_ServeHTTP r) = r"
| "call_Request (Router_ServeHTTP r) = r"

subsection \<open>The director of \<open>srv.proxy\<close>\<close>

text \<open>
  The director rewrites the outbound request in place. Reading \<open>endpoint.Name\<close> through a
  \<open>nil\<close> pointer panics.
\<close>

datatype panic = NilPointerDereference

definition director :: "Request \<Rightarrow> panic + Request" where
  "director r =
     (case ctx_Endpoint (req_ctx r) of
        None \<Rightarrow> Inr (r\<lparr>req_URL := (req_URL r)\<lparr>url_Path := ''/not-found''\<rparr>\<rparr>)
      | Some None \<Rightarrow> Inl NilPointerDereference
      | Some (Some endpoint) \<Rightarrow>
          (let r = r\<lparr>req_Header := Header_Set (req_Header r) BasePathHeader (''/'' @ ep_Name endpoint)\<rparr>;
               r = r\<lparr>req_URL := (req_URL r)\<lparr>url_Host := ep_Host endpoint\<rparr>\<rparr>;
               r = r\<lparr>req_URL := (req_URL r)\<lparr>url_Path := ep_Path endpoint\<rparr>\<rparr>;
               r = r\<lparr>req_URL := (req_URL r)\<lparr>url_Scheme := ''http''\<rparr>\<rparr>;
               r = r\<lparr>req_Host := url_Host (req_URL r)\<rparr>
           in Inr r))"

text \<open>
  The request with the defaults of the first lines of \<open>ServeHTTP\<close>, written in one
  step: an empty \<open>URL.Host\<close> becomes the \<open>Host\<close> of the request, an empty
  \<open>URL.Scheme\<close> becomes \<open>http\<close>. That \<open>ServeHTTP\<close> works on this request is
  \<open>ServeHTTP_unfold\<close> below.
\<close>

definition with_defaults :: "Request \<Rightarrow> Request" where
  "with_defaults r =
     r\<lparr>req_URL := (req_URL r)
        \<lparr>url_Host := (if url_Host (req_URL r) = [] then req_Host r else url_Host (req_URL r)),
         url_Scheme := (if url_Scheme (req_URL r) = [] then ''http'' else url_Scheme (req_URL r))\<rparr>\<rparr>"

subsection \<open>The ACME and TLS options of \<open>Run\<close>\<close>

text \<open>
  The package variables that this part of \<open>Run\<close> reads, with their values on entry
  (\<open>"autocert"\<close>, \<open>"cloudflare"\<close> and \<open>acme.LetsEncryptProductionCA\<close> unless something
  else has assigned them).
\<close>

record globals =
  ACMEProvider :: string
  ACMEChallengeProvider :: string
  ACMECA :: string

text \<open>The flags read with \<open>ctx.String\<close> and \<open>ctx.Bool\<close>.\<close>

record cli_Context =
  acme_provider :: string
  enable_acme :: bool
  enable_tls :: bool

text \<open>The values that the server, ACME and certmagic packages are handed.\<close>

datatype tls_Config = tls_Config string

datatype Store = Store string

datatype Sync = memory_NewSync

datatype Storage = certmagic_NewStorage Sync Store

record cloudflare_Config =
  AuthToken :: string
  ZoneToken :: string

datatype challenge_Provider = cloudflare_DNSProvider cloudflare_Config

datatype acme_Option =
    acme_AcceptToS bool
  | acme_CA string
  | acme_Cache Storage
  | acme_ChallengeProvider challenge_Provider
  | acme_OnDemand bool

datatype acme_Provider =
    autocert_NewProvider
  | certmagic_NewProvider "acme_Option list"

datatype server_Option =
    server_EnableACME bool
  | server_ACMEHosts "string list"
  | server_ACMEProvider acme_Provider
  | server_EnableTLS bool
  | server_TLSConfig tls_Config

text \<open>
  What \<open>Run\<close> gets from outside: \<open>helper.ACMEHosts(ctx)\<close>, \<open>os.Getenv\<close> (the empty
  string for a variable that is not set), \<open>cloudflare.NewDefaultConfig()\<close>,
  \<open>cloudflare.NewDNSProviderConfig\<close>, \<open>helper.TLSConfig(ctx)\<close> and
  \<open>service.Options().Store\<close>.
\<close>

record environment =
  helper_ACMEHosts :: "string list"
  os_Getenv :: "string \<Rightarrow> string"
  cloudflare_NewDefaultConfig :: cloudflare_Config
  cloudflare_NewDNSProviderConfig :: "cloudflare_Config \<Rightarrow> error + challenge_Provider"
  helper_TLSConfig :: "error + tls_Config"
  service_Store :: Store

text \<open>
  How this part of \<open>Run\<close> ends: \<open>log.Fatal\<close> logs the message and leaves the process
  with \<open>os.Exit(1)\<close>; the static TLS branch prints the error and returns from \<open>Run\<close>;
  otherwise \<open>Run\<close> goes on to \<open>srv.Init(opts...)\<close> and \<open>srv.Start()\<close>, where the
  listener binds.
\<close>

datatype Run_result =
    log_Fatal string
  | Println_return string
  | srv_Start "server_Option list"

text \<open>
  The value of the package variable \<open>ACMEProvider\<close> after the flag \<open>acme_provider\<close>,
  when it is not empty, has been assigned to it.
\<close>

definition Run_ACMEProvider :: "globals \<Rightarrow> cli_Context \<Rightarrow> string" where
  "Run_ACMEProvider g ctx =
     (if length (acme_provider ctx) > 0 then acme_provider ctx else ACMEProvider g)"

definition Run_opts :: "globals \<Rightarrow> cli_Context \<Rightarrow> environment \<Rightarrow> Run_result" where
  "Run_opts g ctx env =
     (let opts = [];
          ACMEProvider = Run_ACMEProvider g ctx
      in if enable_acme ctx then
           (let hosts = helper_ACMEHosts env;
                opts = opts @ [server_EnableACME True];
                opts = opts @ [server_ACMEHosts hosts]
            in if ACMEProvider = ''autocert'' then
                 srv_Start (opts @ [server_ACMEProvider autocert_NewProvider])
               else if ACMEProvider = ''certmagic'' then
                 (if ACMEChallengeProvider g \<noteq> ''cloudflare'' then
                    log_Fatal ''The only implemented DNS challenge provider is cloudflare''
                  else
                    (let apiToken = os_Getenv env ''CF_API_TOKEN''
                     in if length apiToken = 0 then
                          log_Fatal ''env variables CF_API_TOKEN and CF_ACCOUNT_ID must be set''
                        else
                          (let storage = certmagic_NewStorage memory_NewSync (service_Store env);
                               config = cloudflare_NewDefaultConfig env;
                               config = config\<lparr>AuthToken := apiToken\<rparr>;
                               config = config\<lparr>ZoneToken := apiToken\<rparr>
                           in case cloudflare_NewDNSProviderConfig env config of
                                Inl err \<Rightarrow> log_Fatal err
                              | Inr challengeProvider \<Rightarrow>
                                  srv_Start (opts @
                                    [server_ACMEProvider
                                       (certmagic_NewProvider
                                          [acme_AcceptToS True,
                                           acme_CA (ACMECA g),
                                           acme_Cache storage,
                                           acme_ChallengeProvider challengeProvider,
                                           acme_OnDemand False])]))))
               else log_Fatal (ACMEProvider @ '' is not a valid ACME provider\<newline>''))
         else if enable_tls ctx then
           (case helper_TLSConfig env of
              Inl err \<Rightarrow> Println_return err
            | Inr config \<Rightarrow> srv_Start (opts @ [server_EnableTLS True] @ [server_TLSConfig config]))
         else srv_Start opts)"

text \<open>The exit status of the process where this part of \<open>Run\<close> ends it.\<close>

fun exit_status :: "Run_result \<Rightarrow> nat option" where
  "exit_status (log_Fatal _) = Some 1"
| "exit_status (Println_return _) = None"
| "exit_status (srv_Start _) = None"

text \<open>Whether \<open>srv.Start()\<close>, which binds the listener, is reached.\<close>

fun binds_listener :: "Run_result \<Rightarrow> bool" where
  "binds_listener (srv_Start _) = True"
| "binds_listener (log_Fatal _) = False"
| "binds_listener (Println_return _) = False"

text \<open>The options that configure TLS, by either way.\<close>

fun is_static_TLS_option :: "server_Option \<Rightarrow> bool" where
  "is_static_TLS_option (server_EnableTLS _) = True"
| "is_static_TLS_option (server_TLSConfig _) = True"
| "is_static_TLS_option _ = False"

subsection \<open>Strings\<close>

text \<open>
  A Go string is its bytes. \<open>strings.Split(s, sep)\<close> for a separator that is not empty
  cuts \<open>s\<close> at the occurrences of \<open>sep\<close>, found from left to right without overlap.
\<close>

fun Split_from :: "string \<Rightarrow> string \<Rightarrow> string \<Rightarrow> string list" where
  "Split_from sep acc [] = [rev acc]"
| "Split_from sep acc (c # cs) =
     (if sep \<noteq> [] \<and> take (length sep) (c # cs) = sep
      then rev acc # Split_from sep [] (drop (length sep - 1) cs)
      else Split_from sep (c # acc) cs)"

definition strings_Split :: "string \<Rightarrow> string \<Rightarrow> string list" where
  "strings_Split s sep = Split_from sep [] s"

fun strings_Join :: "string list \<Rightarrow> string \<Rightarrow> string" where
  "strings_Join [] sep = []"
| "strings_Join [x] sep = x"
| "strings_Join (x # y # ys) sep = x @ sep @ strings_Join (y # ys) sep"

text \<open>\<open>strings.ContainsAny(s, chars)\<close> for ASCII \<open>chars\<close>: some byte of \<open>s\<close> is in \<open>chars\<close>.\<close>

definition strings_ContainsAny :: "string \<Rightarrow> string \<Rightarrow> bool" where
  "strings_ContainsAny s chars = list_ex (\<lambda>c. c \<in> set chars) s"

text \<open>
  \<open>strings.ToUpper\<close> on ASCII: the letters \<open>a\<close> to \<open>z\<close> become \<open>A\<close> to \<open>Z\<close>, every
  other ASCII byte stays. (The mapping of the code points beyond ASCII is not modelled:
  their bytes stay as well.)
\<close>

definition ascii_upper :: "char \<Rightarrow> char" where
  "ascii_upper c =
     (if (97::nat) \<le> of_char c \<and> of_char c \<le> (122::nat)
      then char_of (of_char c - (32::nat)) else c)"

definition strings_ToUpper :: "string \<Rightarrow> string" where
  "strings_ToUpper s = map ascii_upper s"

definition strings_TrimPrefix :: "string \<Rightarrow> string \<Rightarrow> string" where
  "strings_TrimPrefix s pre = (if take (length pre) s = pre then drop (length pre) s else s)"

subsection \<open>The list of web services of \<open>srv.indexHandler\<close>\<close>

record webService =
  ws_Name :: string
  ws_Link :: string
  ws_Icon :: string

text \<open>
  The loop over the services of the registry, given the package variable \<open>Resolver\<close> and
  the \<open>domain\<close> that \<open>publicsuffix.EffectiveTLDPlusOne\<close> returned (empty on error).
  \<open>comps[1]\<close> exists where it is read: \<open>strings.Split\<close> never returns an empty slice.
\<close>

fun webServices :: "string \<Rightarrow> string \<Rightarrow> string list \<Rightarrow> webService list" where
  "webServices Resolver domain [] = []"
| "webServices Resolver domain (srv_Name # services) =
     (case strings_Split srv_Name ''.web.'' of
        [] \<Rightarrow> webServices Resolver domain services
      | [_] \<Rightarrow> webServices Resolver domain services
      | _ # name # _ \<Rightarrow>
          (let link = ''/'' @ name @ ''/'';
               link = (if Resolver = ''subdomain'' \<and> length domain > 0
                       then ''https://'' @ name @ ''.'' @ domain else link);
               name = (if length name \<le> 3 \<and> strings_ContainsAny name ''012345789''
                       then strings_ToUpper name else name)
           in \<lparr>ws_Name = name, ws_Link = link, ws_Icon = []\<rparr>
              # webServices Resolver domain services))"

subsection \<open>The route table of \<open>Run\<close> and the mux router\<close>

text \<open>The handlers that \<open>Run\<close> registers; \<open>H_proxy\<close> is the proxy \<open>p\<close>.\<close>

datatype handler =
    H_StatsHandler
  | H_faviconHandler
  | H_notFoundHandler
  | H_callHandler
  | H_registryHandler
  | H_RPC
  | H_proxy
  | H_indexHandler

text \<open>
  The three shapes of route that \<open>Run\<close> registers with the gorilla mux router:
  \<^item> \<open>HandleFunc\<close> with a path without variables matches the path that equals it;
  \<^item> \<open>HandleFunc("/service/{name}", _)\<close> matches \<open>/service/\<close> followed, up to the end,
    by one or more bytes other than \<open>/\<close>;
  \<^item> \<open>PathPrefix("/{service:[a-zA-Z0-9]+}")\<close> matches a path that starts with \<open>/\<close> and
    at least one ASCII letter or digit.
\<close>

datatype route_pattern =
    Path string
  | Path_service_name
  | PathPrefix_service

definition alnum :: "char \<Rightarrow> bool" where
  "alnum c =
     (let n = (of_char c :: nat)
      in (97 \<le> n \<and> n \<le> 122) \<or> (65 \<le> n \<and> n \<le> 90) \<or> (48 \<le> n \<and> n \<le> 57))"

fun route_matches :: "route_pattern \<Rightarrow> string \<Rightarrow> bool" where
  "route_matches (Path p) path = (path = p)"
| "route_matches Path_service_name path =
     (take 9 path = ''/service/'' \<and> drop 9 path \<noteq> [] \<and> CHR ''/'' \<notin> set (drop 9 path))"
| "route_matches PathPrefix_service path =
     (case path of
        c # d # _ \<Rightarrow> c = CHR ''/'' \<and> alnum d
      | _ \<Rightarrow> False)"


text \<open>The routes in the order in which \<open>Run\<close> registers them.\<close>

definition Run_routes :: "bool \<Rightarrow> (route_pattern \<times> handler) list" where
  "Run_routes enable_stats =
     (if enable_stats then [(Path ''/stats'', H_StatsHandler)] else []) @
     [(Path ''/favicon.ico'', H_faviconHandler),
      (Path ''/not-found'', H_notFoundHandler),
      (Path ''/client'', H_callHandler),
      (Path ''/services'', H_registryHandler),
      (Path_service_name, H_registryHandler),
      (Path ''/rpc'', H_RPC),
      (PathPrefix_service, H_proxy),
      (Path ''/'', H_indexHandler)]"

text \<open>\<open>Router.Match\<close>: the handler of the first route that matches.\<close>

fun Router_Match :: "(route_pattern \<times> handler) list \<Rightarrow> string \<Rightarrow> handler option" where
  "Router_Match [] path = None"
| "Router_Match ((pat, h) # routes) path =
     (if route_matches pat path then Some h else Router_Match routes path)"


text \<open>
  \<open>path.Clean\<close> on a rooted path: empty and \<open>.\<close> elements go, a \<open>..\<close> element goes
  together with the element before it, or alone at the root.
\<close>

fun Clean_elems :: "string list \<Rightarrow> string list \<Rightarrow> string list" where
  "Clean_elems out [] = rev out"
| "Clean_elems out (e # es) =
     (if e = [] \<or> e = ''.'' then Clean_elems out es
      else if e = ''..'' then Clean_elems (tl out) es
      else Clean_elems (e # out) es)"

definition path_Clean :: "string \<Rightarrow> string" where
  "path_Clean p = ''/'' @ strings_Join (Clean_elems [] (strings_Split p ''/'')) ''/''"

text \<open>\<open>cleanPath\<close> of the mux package.\<close>

definition cleanPath :: "string \<Rightarrow> string" where
  "cleanPath p =
     (if p = [] then ''/''
      else
        (let p = (if hd p \<noteq> CHR ''/'' then ''/'' @ p else p);
             np = path_Clean p
         in if last p = CHR ''/'' \<and> np \<noteq> ''/'' then np @ ''/'' else np))"

text \<open>
  \<open>Router.ServeHTTP\<close> of the mux package: a path that is not clean is redirected to
  its clean form; otherwise the handler of the first matching route serves the
  request, and \<open>http.NotFoundHandler\<close> where no route matches. The handler gets the
  request with the variables of the route and the route itself put in front of its
  context, under keys of the mux package.
\<close>

datatype mux_result =
    StatusMovedPermanently string
  | Handler_ServeHTTP handler
  | http_NotFoundHandler

definition mux_ServeHTTP :: "(route_pattern \<times> handler) list \<Rightarrow> Request \<Rightarrow> mux_result" where
  "mux_ServeHTTP routes req =
     (let path = url_Path (req_URL req)
      in if cleanPath path \<noteq> path then StatusMovedPermanently (cleanPath path)
         else (case Router_Match routes path of
                 Some h \<Rightarrow> Handler_ServeHTTP h
               | None \<Rightarrow> http_NotFoundHandler))"

subsection \<open>\<open>srv.render\<close> and \<open>srv.notFoundHandler\<close>\<close>

text \<open>
  The templates are string constants of the package that are declared in another
  file; they are known here by their names.
\<close>

datatype Template =
    layoutTemplate
  | notFoundTemplate
  | indexTemplate
  | serviceTemplate
  | registryTemplate
  | callTemplate

record Account =
  acc_ID :: string

text \<open>
  A \<open>registry.Service\<close> with its name and its endpoints, and the \<open>Results\<close> that a
  handler passes to \<open>render\<close>: \<open>nil\<close> for the not-found page, the template data of
  the index page, a list of services for the registry pages, the map from service names
  to endpoints for the call page.
\<close>

record Service =
  svc_Name :: string
  svc_Endpoints :: "string list"

datatype Results =
    Results_nil
  | Results_index bool "webService list"
  | Results_services "Service list"
  | Results_call "string \<rightharpoonup> string list"

record layout_data =
  LoginTitle :: string
  LoginURL :: string
  StatsURL :: string
  Results :: Results
  User :: string

text \<open>
  What \<open>render\<close> gets from outside: whether \<open>html/template\<close> parses a template
  (\<open>Some err\<close> when it does not) and executes it on the data, the value of a cookie of
  the request (\<open>None\<close> for \<open>http.ErrNoCookie\<close>), \<open>s.auth.Inspect\<close>, the constant
  \<open>inauth.TokenCookieName\<close> and the package variables \<open>loginURL\<close> and \<open>statsURL\<close>.
\<close>

record render_env =
  template_Parse :: "Template \<Rightarrow> error option"
  template_Execute :: "Template \<Rightarrow> layout_data \<Rightarrow> error option"
  request_Cookie :: "Request \<Rightarrow> string \<Rightarrow> string option"
  auth_Inspect :: "string \<Rightarrow> error + Account"
  TokenCookieName :: string
  loginURL :: string
  statsURL :: string

text \<open>
  What a handler writes: \<open>http.Error\<close> with a message and a status code, the output of
  the template on the data, a JSON body, nothing at all, a status code without a body,
  or a redirect to a URL. A handler that panics writes no response.
\<close>

datatype Response =
    http_Error string nat
  | ExecuteTemplate Template layout_data
  | Write_JSON string
  | nothing_written
  | WriteHeader nat
  | Redirect URL nat
  | handler_panic panic

definition render :: "render_env \<Rightarrow> Request \<Rightarrow> Template \<Rightarrow> Results \<Rightarrow> Response" where
  "render env r tmpl data =
     (case template_Parse env layoutTemplate of
        Some err \<Rightarrow> http_Error (''Error occurred:'' @ err) 500
      | None \<Rightarrow>
          (case template_Parse env tmpl of
             Some err \<Rightarrow> http_Error (''Error occurred:'' @ err) 500
           | None \<Rightarrow>
               (let (loginTitle, user) =
                      (case request_Cookie env r (TokenCookieName env) of
                         None \<Rightarrow> (''Login'', [])
                       | Some c_Value \<Rightarrow>
                           (let token = strings_TrimPrefix c_Value (TokenCookieName env @ ''='')
                            in case auth_Inspect env token of
                                 Inl err \<Rightarrow> (''Login'', [])
                               | Inr acc \<Rightarrow> (''Account'', acc_ID acc)));
                    d = \<lparr>LoginTitle = loginTitle, LoginURL = loginURL env,
                         StatsURL = statsURL env, Results = data, User = user\<rparr>
                in case template_Execute env tmpl d of
                     Some err \<Rightarrow> http_Error (''Error occurred:'' @ err) 500
                   | None \<Rightarrow> ExecuteTemplate tmpl d)))"


subsection \<open>\<open>srv.registryHandler\<close>\<close>

text \<open>
  What \<open>registryHandler\<close> gets from outside: the two lookups of the registry (a Go
  function returns both a value and an error), the order of \<open>sortedServices\<close>, which
  is declared in another file of the package, and \<open>json.Marshal\<close> of a map with the
  one key \<open>services\<close>, whose value is the server \<open>s\<close> itself in the first branch and
  the list of services in the second.
\<close>

datatype json_value = JSON_srv | JSON_services "Service list"

record registry_env =
  registry_GetService :: "string \<Rightarrow> Service list \<times> error option"
  registry_ListServices :: "Service list \<times> error option"
  sort_sortedServices :: "Service list \<Rightarrow> Service list"
  json_Marshal :: "json_value \<Rightarrow> error + string"

text \<open>
  \<open>vars\<close> is \<open>mux.Vars(r)\<close>; a key that a Go map does not hold reads as the empty
  string. An error of \<open>ListServices\<close> is logged and the handler goes on.
\<close>

definition registryHandler ::
  "render_env \<Rightarrow> registry_env \<Rightarrow> Request \<Rightarrow> (string \<rightharpoonup> string) \<Rightarrow> Response" where
  "registryHandler env reg r vars =
     (let svc = (case vars ''name'' of None \<Rightarrow> [] | Some v \<Rightarrow> v)
      in if length svc > 0 then
           (case registry_GetService reg svc of
              (sv, Some err) \<Rightarrow> http_Error (''Error occurred:'' @ err) 500
            | (sv, None) \<Rightarrow>
                if length sv = 0 then http_Error ''Not found'' 404
                else if Header_Get (req_Header r) ''Content-Type'' = ''application/json'' then
                  (case json_Marshal reg JSON_srv of
                     Inl err \<Rightarrow> http_Error (''Error occurred:'' @ err) 500
                   | Inr b \<Rightarrow> Write_JSON b)
                else render env r serviceTemplate (Results_services sv))
         else
           (let (services, err) = registry_ListServices reg;
                services = sort_sortedServices reg services
            in if Header_Get (req_Header r) ''Content-Type'' = ''application/json'' then
                 (case json_Marshal reg (JSON_services services) of
                    Inl err \<Rightarrow> http_Error (''Error occurred:'' @ err) 500
                  | Inr b \<Rightarrow> Write_JSON b)
               else render env r registryTemplate (Results_services services)))"

subsection \<open>\<open>faviconHandler\<close>, \<open>srv.indexHandler\<close> and \<open>srv.callHandler\<close>\<close>






subsection \<open>The proxy and the handlers behind \<open>srv.ServeHTTP\<close>\<close>









subsection \<open>Example values\<close>

text \<open>
  The scenario of the specification: \<open>GET /chat/messages\<close>, with the web service
  \<open>chat\<close> on the instance \<open>10.0.0.7:8080\<close>.
\<close>

definition example_URL :: URL where
  "example_URL =
     \<lparr>url_Scheme = [], url_Opaque = [], url_User = None, url_Host = [],
      url_Path = ''/chat/messages'', url_RawPath = [], url_ForceQuery = False,
      url_RawQuery = ''page=2'', url_Fragment = []\<rparr>"

definition example_Request :: Request where
  "example_Request =
     \<lparr>req_Method = ''GET'', req_URL = example_URL, req_Proto = ''HTTP/1.1'',
      req_Header = Map.empty, req_Body = [], req_Host = ''web.example.com'', req_ctx = []\<rparr>"

definition example_Endpoint :: Endpoint where
  "example_Endpoint = \<lparr>ep_Name = ''chat'', ep_Host = ''10.0.0.7:8080'', ep_Path = ''/messages''\<rparr>"


text \<open>A resolver for which no service is registered, and one that resolves to the example.\<close>

definition Resolver_not_found :: Resolver where
  "Resolver_not_found r = Inl ''not found''"

definition Resolver_chat :: Resolver where
  "Resolver_chat r = Inr (Some example_Endpoint)"

definition example_globals :: globals where
  "example_globals =
     \<lparr>ACMEProvider = ''autocert'', ACMEChallengeProvider = ''cloudflare'',
      ACMECA = ''https://acme-v02.api.letsencrypt.org/directory''\<rparr>"

definition example_environment :: environment where
  "example_environment =
     \<lparr>helper_ACMEHosts = [''web.example.com''],
      os_Getenv = (\<lambda>name. if name = ''CF_API_TOKEN'' then ''token'' else []),
      cloudflare_NewDefaultConfig = \<lparr>AuthToken = [], ZoneToken = []\<rparr>,
      cloudflare_NewDNSProviderConfig = (\<lambda>config. Inr (cloudflare_DNSProvider config)),
      helper_TLSConfig = Inr (tls_Config ''cert.pem''),
      service_Store = Store ''store''\<rparr>"








section \<open>Properties\<close>

subsection \<open>Helper facts\<close>

lemma ServeHTTP_unfold:
  "ServeHTTP resolver r =
     (case ctx_Endpoint (req_ctx r) of
        Some _ \<Rightarrow> [prx_ServeHTTP (with_defaults r)]
      | None \<Rightarrow>
          (case resolver (with_defaults r) of
             Inl err \<Rightarrow> [Resolve_call (with_defaults r), Router_ServeHTTP (with_defaults r)]
           | Inr endpoint \<Rightarrow>
               [Resolve_call (with_defaults r),
                prx_ServeHTTP ((with_defaults r)
                  \<lparr>req_ctx := (EndpointKey, EndpointPtr endpoint) # req_ctx r\<rparr>)]))"
  by (simp add: ServeHTTP_def with_defaults_def Let_def Clone_def WithValue_def
        split: option.splits sum.splits)

lemma with_defaults_ctx: "req_ctx (with_defaults r) = req_ctx r"
  by (simp add: with_defaults_def)





lemma Router_Match_proxy_iff:
  "Router_Match (Run_routes enable_stats) path = Some H_proxy \<longleftrightarrow>
     route_matches PathPrefix_service path
     \<and> path \<notin> {''/favicon.ico'', ''/not-found'', ''/client'', ''/services'', ''/rpc''}
     \<and> \<not> route_matches Path_service_name path
     \<and> \<not> (enable_stats \<and> path = ''/stats'')"
  by (cases enable_stats) (simp_all add: Run_routes_def alnum_def)

lemma mux_ServeHTTP_proxy_iff:
  "mux_ServeHTTP (Run_routes enable_stats) r = Handler_ServeHTTP H_proxy \<longleftrightarrow>
     cleanPath (url_Path (req_URL r)) = url_Path (req_URL r)
     \<and> Router_Match (Run_routes enable_stats) (url_Path (req_URL r)) = Some H_proxy"
  by (simp add: mux_ServeHTTP_def Let_def split: option.splits)


lemma registryHandler_lookup_error:
  "vars ''name'' = Some name \<Longrightarrow> name \<noteq> [] \<Longrightarrow>
   registry_GetService reg name = (sv, Some err) \<Longrightarrow>
   registryHandler env reg r vars = http_Error (''Error occurred:'' @ err) 500"
  by (simp add: registryHandler_def)

lemma webServices_Name:
  "strings_Split srv_Name ''.web.'' = a # name # rest \<Longrightarrow>
   map ws_Name (webServices Resolver domain [srv_Name]) =
     [if length name \<le> 3 \<and> (\<exists>c \<in> set name. c \<in> set ''012345789'')
      then strings_ToUpper name else name]"
  by (simp add: Let_def strings_ContainsAny_def list_ex_iff)











subsection \<open>The proxy engine\<close>

text \<open>
  C1. A request whose context already holds an endpoint under the key
  \<open>res.Endpoint{}\<close> is handed to the proxy, with the defaults set, by the only call
  that \<open>ServeHTTP\<close> makes: the resolver is not called, whatever it is. The request keeps
  the endpoint, and the director rewrites it with exactly this endpoint.
\<close>

theorem ServeHTTP_single_resolution:
  assumes "Value (req_ctx r) EndpointKey = Some (EndpointPtr (Some e))"
  shows "ServeHTTP resolver r = [prx_ServeHTTP (with_defaults r)]
       \<and> \<not> list_ex is_Resolve_call (ServeHTTP resolver r)
       \<and> Value (req_ctx (with_defaults r)) EndpointKey = Some (EndpointPtr (Some e))
       \<and> director (with_defaults r) =
           Inr ((with_defaults r)
             \<lparr>req_Header := (req_Header r)(BasePathHeader \<mapsto> [''/'' @ ep_Name e]),
              req_URL := (req_URL r)
                \<lparr>url_Host := ep_Host e, url_Path := ep_Path e, url_Scheme := ''http''\<rparr>,
              req_Host := ep_Host e\<rparr>)"
  using assms
  by (simp add: ServeHTTP_unfold ctx_Endpoint_def director_def with_defaults_def
        Header_Set_def Let_def)

text \<open>The scenario: the context holds the endpoint of \<open>chat\<close>; the resolver, which would fail, is not asked.\<close>

theorem ServeHTTP_single_resolution_witness:
  "Value (req_ctx (example_Request\<lparr>req_ctx := [(EndpointKey, EndpointPtr (Some example_Endpoint))]\<rparr>))
     EndpointKey = Some (EndpointPtr (Some example_Endpoint))
   \<and> ServeHTTP Resolver_not_found
       (example_Request\<lparr>req_ctx := [(EndpointKey, EndpointPtr (Some example_Endpoint))]\<rparr>) =
      [prx_ServeHTTP
         \<lparr>req_Method = ''GET'',
          req_URL = example_URL\<lparr>url_Host := ''web.example.com'', url_Scheme := ''http''\<rparr>,
          req_Proto = ''HTTP/1.1'', req_Header = Map.empty, req_Body = [], req_Host = ''web.example.com'',
          req_ctx = [(EndpointKey, EndpointPtr (Some example_Endpoint))]\<rparr>]
   \<and> director
         \<lparr>req_Method = ''GET'',
          req_URL = example_URL\<lparr>url_Host := ''web.example.com'', url_Scheme := ''http''\<rparr>,
          req_Proto = ''HTTP/1.1'', req_Header = Map.empty, req_Body = [], req_Host = ''web.example.com'',
          req_ctx = [(EndpointKey, EndpointPtr (Some example_Endpoint))]\<rparr> =
      Inr \<lparr>req_Method = ''GET'',
          req_URL = example_URL
            \<lparr>url_Host := ''10.0.0.7:8080'', url_Path := ''/messages'', url_Scheme := ''http''\<rparr>,
          req_Proto = ''HTTP/1.1'', req_Header = [''X-Micro-Web-Base-Path'' \<mapsto> [''/chat'']],
          req_Body = [], req_Host = ''10.0.0.7:8080'',
          req_ctx = [(EndpointKey, EndpointPtr (Some example_Endpoint))]\<rparr>"
proof -
  let ?r = "example_Request\<lparr>req_ctx := [(EndpointKey, EndpointPtr (Some example_Endpoint))]\<rparr>"
  have h: "Value (req_ctx ?r) EndpointKey = Some (EndpointPtr (Some example_Endpoint))"
    by (simp add: Value_def)
  from ServeHTTP_single_resolution [OF h, of Resolver_not_found] h
  show ?thesis
    by (simp add: with_defaults_def example_Request_def example_URL_def example_Endpoint_def
          BasePathHeader_def)
qed

text \<open>
  C2. For a request with the endpoint \<open>e\<close> in its context, the director sets the header
  \<open>X-Micro-Web-Base-Path\<close> to \<open>/\<close> followed by the name of \<open>e\<close>, the host of the URL
  and of the request to the host of \<open>e\<close>, the path of the URL to the path of \<open>e\<close> and
  the scheme of the URL to \<open>http\<close>, whatever the scheme was. The URL of the result is
  the URL of the request with these three fields updated: no other field of it changes.
\<close>

theorem director_rewrite:
  assumes "Value (req_ctx r) EndpointKey = Some (EndpointPtr (Some e))"
  shows "director r =
           Inr (r\<lparr>req_Header := (req_Header r)(''X-Micro-Web-Base-Path'' \<mapsto> [''/'' @ ep_Name e]),
                  req_URL := (req_URL r)
                    \<lparr>url_Host := ep_Host e, url_Path := ep_Path e, url_Scheme := ''http''\<rparr>,
                  req_Host := ep_Host e\<rparr>)"
  using assms
  by (simp add: ctx_Endpoint_def director_def Header_Set_def Let_def BasePathHeader_def)

text \<open>An inbound \<open>https\<close> URL with a query: scheme, host and path change, the query stays.\<close>

theorem director_rewrite_witness:
  "Value (req_ctx (example_Request
       \<lparr>req_URL := example_URL\<lparr>url_Scheme := ''https'', url_Host := ''web.example.com''\<rparr>,
        req_ctx := [(EndpointKey, EndpointPtr (Some example_Endpoint))]\<rparr>))
     EndpointKey = Some (EndpointPtr (Some example_Endpoint))
   \<and> director (example_Request
       \<lparr>req_URL := example_URL\<lparr>url_Scheme := ''https'', url_Host := ''web.example.com''\<rparr>,
        req_ctx := [(EndpointKey, EndpointPtr (Some example_Endpoint))]\<rparr>) =
      Inr \<lparr>req_Method = ''GET'',
          req_URL =
            \<lparr>url_Scheme = ''http'', url_Opaque = [], url_User = None,
             url_Host = ''10.0.0.7:8080'', url_Path = ''/messages'', url_RawPath = [],
             url_ForceQuery = False, url_RawQuery = ''page=2'', url_Fragment = []\<rparr>,
          req_Proto = ''HTTP/1.1'', req_Header = [''X-Micro-Web-Base-Path'' \<mapsto> [''/chat'']],
          req_Body = [], req_Host = ''10.0.0.7:8080'',
          req_ctx = [(EndpointKey, EndpointPtr (Some example_Endpoint))]\<rparr>"
proof -
  let ?r = "example_Request
       \<lparr>req_URL := example_URL\<lparr>url_Scheme := ''https'', url_Host := ''web.example.com''\<rparr>,
        req_ctx := [(EndpointKey, EndpointPtr (Some example_Endpoint))]\<rparr>"
  have h: "Value (req_ctx ?r) EndpointKey = Some (EndpointPtr (Some example_Endpoint))"
    by (simp add: Value_def)
  from director_rewrite [OF h] h show ?thesis
    by (simp add: example_Request_def example_URL_def example_Endpoint_def)
qed

text \<open>
  C3. For a request without an endpoint in its context, \<open>ServeHTTP\<close> calls the resolver
  exactly once, first, on the request with the defaults set. When the resolver returns
  an error the request goes to the mux router, with its context as it was; when it
  returns an endpoint, the request goes to the proxy with the endpoint stored in its
  context under the key \<open>res.Endpoint{}\<close>, where the type assertion finds it.
\<close>

theorem ServeHTTP_resolves_once:
  assumes "ctx_Endpoint (req_ctx r) = None"
  shows "length (filter is_Resolve_call (ServeHTTP resolver r)) = 1
       \<and> hd (ServeHTTP resolver r) = Resolve_call (with_defaults r)
       \<and> req_ctx (with_defaults r) = req_ctx r
       \<and> ServeHTTP resolver r =
           (case resolver (with_defaults r) of
              Inl err \<Rightarrow> [Resolve_call (with_defaults r), Router_ServeHTTP (with_defaults r)]
            | Inr endpoint \<Rightarrow>
                [Resolve_call (with_defaults r),
                 prx_ServeHTTP ((with_defaults r)
                   \<lparr>req_ctx := WithValue (req_ctx r) EndpointKey (EndpointPtr endpoint)\<rparr>)])
       \<and> (\<forall>endpoint. ctx_Endpoint (WithValue (req_ctx r) EndpointKey (EndpointPtr endpoint))
                        = Some endpoint)"
  using assms
  by (simp add: ServeHTTP_unfold with_defaults_ctx WithValue_def ctx_Endpoint_def Value_def
        split: sum.splits)

text \<open>The scenario with a resolver that fails and with one that resolves to \<open>chat\<close>.\<close>

theorem ServeHTTP_resolves_once_witness:
  "ctx_Endpoint (req_ctx example_Request) = None
   \<and> ServeHTTP Resolver_not_found example_Request =
       [Resolve_call (example_Request
          \<lparr>req_URL := example_URL\<lparr>url_Host := ''web.example.com'', url_Scheme := ''http''\<rparr>\<rparr>),
        Router_ServeHTTP (example_Request
          \<lparr>req_URL := example_URL\<lparr>url_Host := ''web.example.com'', url_Scheme := ''http''\<rparr>\<rparr>)]
   \<and> ServeHTTP Resolver_chat example_Request =
       [Resolve_call (example_Request
          \<lparr>req_URL := example_URL\<lparr>url_Host := ''web.example.com'', url_Scheme := ''http''\<rparr>\<rparr>),
        prx_ServeHTTP (example_Request
          \<lparr>req_URL := example_URL\<lparr>url_Host := ''web.example.com'', url_Scheme := ''http''\<rparr>,
           req_ctx := [(EndpointKey, EndpointPtr (Some example_Endpoint))]\<rparr>)]"
proof -
  have h: "ctx_Endpoint (req_ctx example_Request) = None"
    by (simp add: example_Request_def ctx_Endpoint_def Value_def)
  from ServeHTTP_resolves_once [OF h, of Resolver_not_found]
       ServeHTTP_resolves_once [OF h, of Resolver_chat] h
  show ?thesis
    by (simp add: with_defaults_def WithValue_def example_Request_def example_URL_def
          Resolver_not_found_def Resolver_chat_def)
qed







subsection \<open>The certificate options\<close>

text \<open>
  C6. With \<open>enable_acme\<close> set, \<open>Run\<close> ends in \<open>log.Fatal\<close>, that is with exit status 1
  and before \<open>srv.Start()\<close> binds the listener, in each of these cases: the ACME
  provider is neither \<open>autocert\<close> nor \<open>certmagic\<close>; it is \<open>certmagic\<close> and the challenge
  provider is not \<open>cloudflare\<close>; it is \<open>certmagic\<close> and \<open>CF_API_TOKEN\<close> is empty or
  not set.
\<close>

theorem Run_fatal_configuration:
  assumes "enable_acme ctx"
  shows "(Run_ACMEProvider g ctx \<noteq> ''autocert'' \<and> Run_ACMEProvider g ctx \<noteq> ''certmagic''
            \<longrightarrow> Run_opts g ctx env =
                  log_Fatal (Run_ACMEProvider g ctx @ '' is not a valid ACME provider\<newline>''))
       \<and> (Run_ACMEProvider g ctx = ''certmagic'' \<and> ACMEChallengeProvider g \<noteq> ''cloudflare''
            \<longrightarrow> Run_opts g ctx env =
                  log_Fatal ''The only implemented DNS challenge provider is cloudflare'')
       \<and> (Run_ACMEProvider g ctx = ''certmagic'' \<and> ACMEChallengeProvider g = ''cloudflare''
            \<and> os_Getenv env ''CF_API_TOKEN'' = []
            \<longrightarrow> Run_opts g ctx env =
                  log_Fatal ''env variables CF_API_TOKEN and CF_ACCOUNT_ID must be set'')
       \<and> ((Run_ACMEProvider g ctx \<noteq> ''autocert'' \<and> Run_ACMEProvider g ctx \<noteq> ''certmagic'')
            \<or> (Run_ACMEProvider g ctx = ''certmagic'' \<and> ACMEChallengeProvider g \<noteq> ''cloudflare'')
            \<or> (Run_ACMEProvider g ctx = ''certmagic'' \<and> os_Getenv env ''CF_API_TOKEN'' = [])
            \<longrightarrow> exit_status (Run_opts g ctx env) = Some 1
                \<and> \<not> binds_listener (Run_opts g ctx env))"
  using assms by (auto simp add: Run_opts_def Let_def)

text \<open>One configuration for each of the three cases.\<close>

theorem Run_fatal_configuration_witness:
  "Run_opts example_globals \<lparr>acme_provider = ''letsencrypt'', enable_acme = True, enable_tls = False\<rparr>
      example_environment = log_Fatal ''letsencrypt is not a valid ACME provider\<newline>''
   \<and> Run_opts (example_globals\<lparr>ACMEChallengeProvider := ''route53''\<rparr>)
        \<lparr>acme_provider = ''certmagic'', enable_acme = True, enable_tls = False\<rparr>
        example_environment
      = log_Fatal ''The only implemented DNS challenge provider is cloudflare''
   \<and> Run_opts example_globals
        \<lparr>acme_provider = ''certmagic'', enable_acme = True, enable_tls = False\<rparr>
        (example_environment\<lparr>os_Getenv := (\<lambda>name. [])\<rparr>)
      = log_Fatal ''env variables CF_API_TOKEN and CF_ACCOUNT_ID must be set''
   \<and> exit_status (Run_opts example_globals
        \<lparr>acme_provider = ''certmagic'', enable_acme = True, enable_tls = False\<rparr>
        (example_environment\<lparr>os_Getenv := (\<lambda>name. [])\<rparr>)) = Some 1
   \<and> \<not> binds_listener (Run_opts example_globals
        \<lparr>acme_provider = ''certmagic'', enable_acme = True, enable_tls = False\<rparr>
        (example_environment\<lparr>os_Getenv := (\<lambda>name. [])\<rparr>))"
  using Run_fatal_configuration
          [where ctx = "\<lparr>acme_provider = ''letsencrypt'', enable_acme = True, enable_tls = False\<rparr>"
             and g = example_globals and env = example_environment]
        Run_fatal_configuration
          [where ctx = "\<lparr>acme_provider = ''certmagic'', enable_acme = True, enable_tls = False\<rparr>"
             and g = "example_globals\<lparr>ACMEChallengeProvider := ''route53''\<rparr>"
             and env = example_environment]
        Run_fatal_configuration
          [where ctx = "\<lparr>acme_provider = ''certmagic'', enable_acme = True, enable_tls = False\<rparr>"
             and g = example_globals
             and env = "example_environment\<lparr>os_Getenv := (\<lambda>name. [])\<rparr>"]
  by (simp add: Run_ACMEProvider_def example_globals_def)

text \<open>
  C7. With \<open>enable_acme\<close> set, neither the flag \<open>enable_tls\<close> nor the result of
  \<open>helper.TLSConfig\<close> has any influence on how \<open>Run\<close> goes on, and the options with
  which the server starts hold no static TLS option. With neither flag set the server
  starts with no option at all.
\<close>

theorem Run_ACME_excludes_static_TLS:
  "(enable_acme ctx \<longrightarrow>
      Run_opts g (ctx\<lparr>enable_tls := b\<rparr>) (env\<lparr>helper_TLSConfig := t\<rparr>) = Run_opts g ctx env
      \<and> (\<forall>opts. Run_opts g ctx env = srv_Start opts \<longrightarrow> \<not> list_ex is_static_TLS_option opts))
   \<and> (\<not> enable_acme ctx \<and> \<not> enable_tls ctx \<longrightarrow> Run_opts g ctx env = srv_Start [])"
  by (auto simp add: Run_opts_def Run_ACMEProvider_def Let_def split: sum.splits if_splits)

text \<open>ACME with \<open>enable_tls\<close> set as well, ACME with a failing \<open>helper.TLSConfig\<close>, and neither.\<close>

theorem Run_ACME_excludes_static_TLS_witness:
  "Run_opts example_globals \<lparr>acme_provider = [], enable_acme = True, enable_tls = True\<rparr>
      example_environment
     = srv_Start [server_EnableACME True, server_ACMEHosts [''web.example.com''],
                  server_ACMEProvider autocert_NewProvider]
   \<and> Run_opts example_globals \<lparr>acme_provider = [], enable_acme = True, enable_tls = False\<rparr>
      (example_environment\<lparr>helper_TLSConfig := Inl ''no certificate''\<rparr>)
     = srv_Start [server_EnableACME True, server_ACMEHosts [''web.example.com''],
                  server_ACMEProvider autocert_NewProvider]
   \<and> \<not> list_ex is_static_TLS_option
         [server_EnableACME True, server_ACMEHosts [''web.example.com''],
          server_ACMEProvider autocert_NewProvider]
   \<and> Run_opts example_globals \<lparr>acme_provider = [], enable_acme = False, enable_tls = False\<rparr>
      example_environment = srv_Start []"
proof -
  let ?ctx = "\<lparr>acme_provider = [], enable_acme = True, enable_tls = True\<rparr>"
  have r: "Run_opts example_globals ?ctx example_environment
     = srv_Start [server_EnableACME True, server_ACMEHosts [''web.example.com''],
                  server_ACMEProvider autocert_NewProvider]"
    by (simp add: Run_opts_def Run_ACMEProvider_def example_globals_def example_environment_def)
  from Run_ACME_excludes_static_TLS
         [where ctx = ?ctx and g = example_globals and b = False
            and env = example_environment and t = "Inl ''no certificate''"]
       Run_ACME_excludes_static_TLS
         [where ctx = "\<lparr>acme_provider = [], enable_acme = False, enable_tls = False\<rparr>"
            and g = example_globals and b = False
            and env = example_environment and t = "Inl ''no certificate''"]
       r
  show ?thesis by simp
qed

text \<open>
  C8. With the provider \<open>certmagic\<close>, the challenge provider \<open>cloudflare\<close>, a token in
  \<open>CF_API_TOKEN\<close> and a DNS provider built from it, the server starts with ACME
  enabled for the hosts of \<open>helper.ACMEHosts\<close> and with a certmagic provider whose
  options are: terms of service accepted, the CA of \<open>ACMECA\<close>, a cache made of
  \<open>memory.NewSync()\<close> and the store of the service, the challenge provider, and
  on-demand issuance switched off.
\<close>

theorem Run_certmagic_provider:
  assumes "enable_acme ctx"
      and "Run_ACMEProvider g ctx = ''certmagic''"
      and "ACMEChallengeProvider g = ''cloudflare''"
      and "os_Getenv env ''CF_API_TOKEN'' \<noteq> []"
      and "cloudflare_NewDNSProviderConfig env
             ((cloudflare_NewDefaultConfig env)
                \<lparr>AuthToken := os_Getenv env ''CF_API_TOKEN'',
                 ZoneToken := os_Getenv env ''CF_API_TOKEN''\<rparr>) = Inr challengeProvider"
  shows "Run_opts g ctx env =
           srv_Start
             [server_EnableACME True,
              server_ACMEHosts (helper_ACMEHosts env),
              server_ACMEProvider
                (certmagic_NewProvider
                   [acme_AcceptToS True,
                    acme_CA (ACMECA g),
                    acme_Cache (certmagic_NewStorage memory_NewSync (service_Store env)),
                    acme_ChallengeProvider challengeProvider,
                    acme_OnDemand False])]"
  using assms by (simp add: Run_opts_def Let_def)

text \<open>The DNS-01 configuration of the example environment.\<close>

theorem Run_certmagic_provider_witness:
  "Run_opts example_globals
     \<lparr>acme_provider = ''certmagic'', enable_acme = True, enable_tls = False\<rparr>
     example_environment =
     srv_Start
       [server_EnableACME True,
        server_ACMEHosts [''web.example.com''],
        server_ACMEProvider
          (certmagic_NewProvider
             [acme_AcceptToS True,
              acme_CA ''https://acme-v02.api.letsencrypt.org/directory'',
              acme_Cache (certmagic_NewStorage memory_NewSync (Store ''store'')),
              acme_ChallengeProvider
                (cloudflare_DNSProvider \<lparr>AuthToken = ''token'', ZoneToken = ''token''\<rparr>),
              acme_OnDemand False])]"
  using Run_certmagic_provider
          [where ctx = "\<lparr>acme_provider = ''certmagic'', enable_acme = True, enable_tls = False\<rparr>"
             and g = example_globals and env = example_environment
             and challengeProvider =
               "cloudflare_DNSProvider \<lparr>AuthToken = ''token'', ZoneToken = ''token''\<rparr>"]
  by (simp add: Run_ACMEProvider_def example_globals_def example_environment_def)

subsection \<open>The names on the index page\<close>

text \<open>
  C9. The name \<open>m6o\<close> has three characters and contains the digit 6, and
  \<open>strings.ToUpper\<close> of it is \<open>M6O\<close>; the list of web services shows it as \<open>m6o\<close>,
  because the digits that \<open>indexHandler\<close> looks for are \<open>012345789\<close>, without the 6.
  The name \<open>m3o\<close> of the comment in the source is shown as \<open>M3O\<close>.
\<close>

theorem webServices_digit_six:
  "map ws_Name (webServices ''path'' [] [''go.micro.web.m6o'']) = [''m6o'']
   \<and> strings_ToUpper ''m6o'' = ''M6O''
   \<and> map ws_Name (webServices ''path'' [] [''go.micro.web.m3o'']) = [''M3O'']"
  by code_simp

subsection \<open>The defaults of the request\<close>

text \<open>
  C10. \<open>ServeHTTP\<close> makes at least one call, and the request of its first call, which
  is the resolver or the proxy, is the inbound request with the URL host set to the
  \<open>Host\<close> of the request if it was empty and the URL scheme set to \<open>http\<close> if it was
  empty, and nothing else changed; the endpoint that the context holds is the same
  before and after. Every call sees this URL, and the method, header and \<open>Host\<close> of
  the inbound request.
\<close>

theorem ServeHTTP_sets_defaults:
  "ServeHTTP resolver r \<noteq> []
   \<and> list_all (\<lambda>c.
        req_URL (call_Request c) = (req_URL r)
          \<lparr>url_Host := (if url_Host (req_URL r) = [] then req_Host r else url_Host (req_URL r)),
           url_Scheme := (if url_Scheme (req_URL r) = [] then ''http''
                          else url_Scheme (req_URL r))\<rparr>
        \<and> req_Method (call_Request c) = req_Method r
        \<and> req_Proto (call_Request c) = req_Proto r
        \<and> req_Header (call_Request c) = req_Header r
        \<and> req_Body (call_Request c) = req_Body r
        \<and> req_Host (call_Request c) = req_Host r) (ServeHTTP resolver r)
   \<and> call_Request (hd (ServeHTTP resolver r)) =
       r\<lparr>req_URL := (req_URL r)
          \<lparr>url_Host := (if url_Host (req_URL r) = [] then req_Host r else url_Host (req_URL r)),
           url_Scheme := (if url_Scheme (req_URL r) = [] then ''http''
                          else url_Scheme (req_URL r))\<rparr>\<rparr>
   \<and> ctx_Endpoint (req_ctx (call_Request (hd (ServeHTTP resolver r)))) = ctx_Endpoint (req_ctx r)"
  by (simp add: ServeHTTP_unfold with_defaults_def split: option.splits sum.splits)

text \<open>An empty host and scheme are filled in; a host and scheme that are set are kept.\<close>

theorem ServeHTTP_sets_defaults_witness:
  "call_Request (hd (ServeHTTP Resolver_not_found example_Request)) =
     \<lparr>req_Method = ''GET'',
      req_URL =
        \<lparr>url_Scheme = ''http'', url_Opaque = [], url_User = None,
         url_Host = ''web.example.com'', url_Path = ''/chat/messages'', url_RawPath = [],
         url_ForceQuery = False, url_RawQuery = ''page=2'', url_Fragment = []\<rparr>,
      req_Proto = ''HTTP/1.1'', req_Header = Map.empty, req_Body = [], req_Host = ''web.example.com'', req_ctx = []\<rparr>
   \<and> call_Request (hd (ServeHTTP Resolver_not_found
        (example_Request\<lparr>req_URL := example_URL\<lparr>url_Scheme := ''https'', url_Host := ''a.b''\<rparr>\<rparr>))) =
     example_Request\<lparr>req_URL := example_URL\<lparr>url_Scheme := ''https'', url_Host := ''a.b''\<rparr>\<rparr>"
  using ServeHTTP_sets_defaults [of Resolver_not_found example_Request]
        ServeHTTP_sets_defaults [of Resolver_not_found
          "example_Request\<lparr>req_URL := example_URL\<lparr>url_Scheme := ''https'', url_Host := ''a.b''\<rparr>\<rparr>"]
  by (simp add: example_Request_def example_URL_def)

end
